theory Spec2Isabelle
  imports Main "HOL-Library.Word" "HOL-Library.Signed_Division"
begin

section \<open>Common C-level notions\<close>

text \<open>
  Pointers are 64-bit addresses (Fuchsia targets are LP64); the null pointer is address 0.
  C strings (\<open>const char*\<close> names) are modelled by their contents.
\<close>

type_synonym addr = "64 word"
type_synonym uword = "64 word"
type_synonym intptr_t = "64 word"
type_synonym int64_t = "64 word"
type_synonym int32_t = "32 word"

definition NULL :: addr where
  "NULL = 0"

text \<open>
  Dynamically allocated memory: a partial map from the address of a live allocation to its
  contents. \<open>free(p)\<close> of the C library does nothing for the null pointer, releases a live
  allocation, and is undefined (\<open>None\<close>) for any other pointer.
\<close>

type_synonym 'v heap = "addr \<rightharpoonup> 'v"

definition free :: "'v heap \<Rightarrow> addr \<Rightarrow> 'v heap option" where
  "free h p = (if p = NULL then Some h
               else if h p = None then None
               else Some (h(p := None)))"

section \<open>vm/message\_loop.h: IsolateMessage\<close>

text \<open>
  Modelled from the spec: \<open>Port\<close> is declared in vm/port.h, which is not among the sources;
  the spec calls it an opaque numeric capability. It is taken as a 64-bit number.
\<close>

type_synonym Port = "64 word"

text \<open>The members \<open>next_\<close>, \<open>dest_\<close>, \<open>data_\<close>, \<open>length_\<close>, \<open>argv_\<close>, \<open>argc_\<close>.\<close>

record IsolateMessage =
  msg_next :: addr
  msg_dest :: Port
  msg_data :: addr        \<comment> \<open>\<open>uint8_t*\<close>, owned by message\<close>
  msg_length :: intptr_t
  msg_argv :: addr        \<comment> \<open>\<open>const char**\<close>, not owned by message\<close>
  msg_argc :: int32_t

text \<open>The constructor \<open>IsolateMessage(Port dest, uint8_t* data, intptr_t length)\<close>.\<close>

definition IsolateMessage_data :: "Port \<Rightarrow> addr \<Rightarrow> intptr_t \<Rightarrow> IsolateMessage" where
  "IsolateMessage_data dest data len =
     \<lparr> msg_next = NULL, msg_dest = dest,
       msg_data = data, msg_length = len,
       msg_argv = NULL, msg_argc = 0 \<rparr>"

text \<open>The constructor \<open>IsolateMessage(Port dest, int argc, const char** argv)\<close>.\<close>

definition IsolateMessage_args :: "Port \<Rightarrow> int32_t \<Rightarrow> addr \<Rightarrow> IsolateMessage" where
  "IsolateMessage_args dest argc argv =
     \<lparr> msg_next = NULL, msg_dest = dest,
       msg_data = NULL, msg_length = 0,
       msg_argv = argv, msg_argc = argc \<rparr>"

text \<open>The accessors.\<close>

definition dest_port :: "IsolateMessage \<Rightarrow> Port" where
  "dest_port m = msg_dest m"

definition data :: "IsolateMessage \<Rightarrow> addr" where
  "data m = msg_data m"

definition length_of :: "IsolateMessage \<Rightarrow> intptr_t" where
  "length_of m = msg_length m"

definition argc :: "IsolateMessage \<Rightarrow> int32_t" where
  "argc m = msg_argc m"

definition argv :: "IsolateMessage \<Rightarrow> addr" where
  "argv m = msg_argv m"

text \<open>The destructor \<open>~IsolateMessage() { free(data_); }\<close>, on the heap it runs in.\<close>

definition IsolateMessage_destroy :: "'v heap \<Rightarrow> IsolateMessage \<Rightarrow> 'v heap option" where
  "IsolateMessage_destroy h m = free h (msg_data m)"

text \<open>
  A side of the payload is populated when its pointer is non-null or its count is non-zero.
\<close>

definition has_data :: "IsolateMessage \<Rightarrow> bool" where
  "has_data m = (data m \<noteq> NULL \<or> length_of m \<noteq> 0)"

definition has_args :: "IsolateMessage \<Rightarrow> bool" where
  "has_args m = (argv m \<noteq> NULL \<or> argc m \<noteq> 0)"

section \<open>vm/thread\_fuchsia.cc\<close>

subsection \<open>The operating system as seen by the runtime\<close>

text \<open>
  The values of \<open>errno.h\<close> that the code compares against (the generic values of Fuchsia's
  C library); only that they are non-zero and pairwise distinct matters.
\<close>

definition EPERM :: int where "EPERM = 1"
definition EBUSY :: int where "EBUSY = 16"
definition EDEADLK :: int where "EDEADLK = 35"
definition ETIMEDOUT :: int where "ETIMEDOUT = 110"

type_synonym ThreadId = "64 word"
type_synonym ThreadLocalKey = "32 word"

record timespec =
  tv_sec :: "64 word"
  tv_nsec :: "64 word"

text \<open>
  Every call the file makes into the C library, with the arguments that identify the object
  it acts on. \<open>fprintf_stderr line result\<close> is the diagnostic
  \<open>"%s:%d: pthread error: %d\\n"\<close> written in DEBUG builds.
\<close>

datatype os_call =
    pthread_attr_init
  | pthread_create addr
  | pthread_attr_destroy
  | pthread_key_create addr
  | pthread_key_delete ThreadLocalKey
  | pthread_setspecific ThreadLocalKey uword
  | pthread_mutexattr_init
  | pthread_mutexattr_settype_ERRORCHECK
  | pthread_mutex_init addr
  | pthread_mutexattr_destroy
  | pthread_mutex_destroy addr
  | pthread_mutex_lock addr
  | pthread_mutex_trylock addr
  | pthread_mutex_unlock addr
  | pthread_condattr_init
  | pthread_condattr_setclock_MONOTONIC
  | pthread_cond_init addr
  | pthread_condattr_destroy
  | pthread_cond_destroy addr
  | pthread_cond_wait addr addr
  | pthread_cond_timedwait addr addr timespec
  | pthread_cond_signal addr
  | pthread_cond_broadcast addr
  | fprintf_stderr nat int

text \<open>
  The start data handed to a new thread. The entry function is a code pointer; what the
  code behind a pointer does is given separately (the \<open>call\<close> argument of the trampoline).
\<close>

text \<open>The members \<open>name_\<close>, \<open>function_\<close>, \<open>parameter_\<close>.\<close>

record ThreadStartData =
  sd_name :: string
  sd_function :: addr
  sd_parameter :: uword

text \<open>
  Modelled from the spec: class \<open>Thread\<close> is declared in vm/thread.h, which is not among
  the sources. The spec describes it as the per-thread execution context that the trampoline
  installs as the thread-local current thread and names; the object carries its name, unset
  on construction.
\<close>

record Thread =
  thread_name :: "string option"

text \<open>
  The state of the process that the file reads and writes: the live \<open>ThreadStartData\<close> and
  \<open>Thread\<close> objects, the thread-local slot holding each OS thread's current \<open>Thread*\<close>, and
  the calls made into the C library so far, oldest first.
\<close>

record process =
  start_data :: "ThreadStartData heap"
  threads :: "Thread heap"
  current :: "ThreadId \<Rightarrow> addr"
  calls :: "os_call list"

text \<open>
  A call into the C library is recorded and answers with the result code the operating
  system gives it; \<open>os\<close> is that answer, arbitrary throughout.
\<close>

definition syscall :: "(os_call \<Rightarrow> int) \<Rightarrow> os_call \<Rightarrow> process \<Rightarrow> int \<times> process" where
  "syscall os c p = (os c, p\<lparr>calls := calls p @ [c]\<rparr>)"

subsection \<open>Outcomes and the checking macros\<close>

text \<open>
  An operation either returns to its caller or terminates the process: \<open>Fatal r\<close> is
  \<open>FATAL1("pthread error: %d", r)\<close>, \<open>AssertionFailure\<close> a failed \<open>ASSERT\<close>.
\<close>

datatype 'a outcome = Fatal int | AssertionFailure | Returned 'a

fun and_then :: "'a outcome \<Rightarrow> ('a \<Rightarrow> 'b outcome) \<Rightarrow> 'b outcome" where
  "and_then (Fatal r) f = Fatal r"
| "and_then AssertionFailure f = AssertionFailure"
| "and_then (Returned x) f = f x"

text \<open>Whether an outcome ends the process instead of handing a result to the caller.\<close>

fun terminates_process :: "'a outcome \<Rightarrow> bool" where
  "terminates_process (Fatal r) = True"
| "terminates_process AssertionFailure = True"
| "terminates_process (Returned x) = False"

definition VALIDATE_PTHREAD_RESULT :: "int \<Rightarrow> 'a outcome \<Rightarrow> 'a outcome" where
  "VALIDATE_PTHREAD_RESULT result rest = (if result \<noteq> 0 then Fatal result else rest)"

text \<open>
  Modelled from the spec: \<open>ASSERT\<close> and \<open>DEBUG_ASSERT\<close> are defined in vm/assert.h, which is
  not among the sources. The spec calls them checked invariants, detected in debug builds and
  terminating the process; in other builds they expand to nothing (as the note at
  \<open>ASSERT_PTHREAD_SUCCESS\<close> in this file says of \<open>ASSERT\<close>).
\<close>

definition ASSERT :: "bool \<Rightarrow> bool \<Rightarrow> 'a outcome \<Rightarrow> 'a outcome" where
  "ASSERT debug cond rest = (if debug \<and> \<not> cond then AssertionFailure else rest)"

definition DEBUG_ASSERT :: "bool \<Rightarrow> bool \<Rightarrow> 'a outcome \<Rightarrow> 'a outcome" where
  "DEBUG_ASSERT debug cond rest = ASSERT debug cond rest"

definition ASSERT_PTHREAD_SUCCESS :: "bool \<Rightarrow> int \<Rightarrow> 'a outcome \<Rightarrow> 'a outcome" where
  "ASSERT_PTHREAD_SUCCESS debug result rest =
     (if debug then VALIDATE_PTHREAD_RESULT result rest
      else ASSERT debug (result = 0) rest)"

text \<open>
  \<open>RETURN_ON_PTHREAD_FAILURE\<close> leaves the enclosing function with the result code; the DEBUG
  variant first writes the diagnostic with the line of the macro's use.
\<close>

definition RETURN_ON_PTHREAD_FAILURE ::
  "bool \<Rightarrow> (os_call \<Rightarrow> int) \<Rightarrow> nat \<Rightarrow> int \<Rightarrow> process \<Rightarrow> (int \<times> process) outcome
     \<Rightarrow> (int \<times> process) outcome" where
  "RETURN_ON_PTHREAD_FAILURE debug os line result p rest =
     (if result \<noteq> 0
      then Returned (result, if debug then snd (syscall os (fprintf_stderr line result) p) else p)
      else rest)"

subsection \<open>Thread\<close>






text \<open>
  \<open>Thread::Start\<close>. \<open>new_data\<close> is the address \<open>new ThreadStartData(...)\<close> obtains; the numbers
  are the source lines of the three uses of \<open>RETURN_ON_PTHREAD_FAILURE\<close>.
\<close>

definition Thread_Start ::
  "bool \<Rightarrow> (os_call \<Rightarrow> int) \<Rightarrow> addr \<Rightarrow> string \<Rightarrow> addr \<Rightarrow> uword \<Rightarrow> process
     \<Rightarrow> (int \<times> process) outcome" where
  "Thread_Start debug os new_data name function parameter p =
     (case syscall os pthread_attr_init p of (result, p1) \<Rightarrow>
      RETURN_ON_PTHREAD_FAILURE debug os 92 result p1
       (let data' = new_data;
            p2 = p1\<lparr>start_data := (start_data p1)(data' \<mapsto>
                   \<lparr> sd_name = name, sd_function = function, sd_parameter = parameter \<rparr>)\<rparr>
        in case syscall os (pthread_create data') p2 of (result, p3) \<Rightarrow>
           RETURN_ON_PTHREAD_FAILURE debug os 98 result p3
            (case syscall os pthread_attr_destroy p3 of (result, p4) \<Rightarrow>
             RETURN_ON_PTHREAD_FAILURE debug os 101 result p4
              (Returned (0, p4)))))"

definition kInvalidThreadId :: ThreadId where
  "kInvalidThreadId = 0"

text \<open>
  Thread-local keys. \<open>kUnsetThreadLocalKey\<close> is declared in a header that is not among the
  sources and is a parameter here; \<open>new_key\<close> is the key \<open>pthread_key_create\<close> stores on
  success, \<open>destructor\<close> the code pointer passed to it.
\<close>

definition Thread_CreateThreadLocal ::
  "bool \<Rightarrow> (os_call \<Rightarrow> int) \<Rightarrow> ThreadLocalKey \<Rightarrow> ThreadLocalKey \<Rightarrow> addr \<Rightarrow> process
     \<Rightarrow> (ThreadLocalKey \<times> process) outcome" where
  "Thread_CreateThreadLocal debug os kUnsetThreadLocalKey new_key destructor p =
     (case syscall os (pthread_key_create destructor) p of (result, p1) \<Rightarrow>
      let key = (if result = 0 then new_key else kUnsetThreadLocalKey) in
      VALIDATE_PTHREAD_RESULT result
       (ASSERT debug (key \<noteq> kUnsetThreadLocalKey)
         (Returned (key, p1))))"

definition Thread_DeleteThreadLocal ::
  "bool \<Rightarrow> (os_call \<Rightarrow> int) \<Rightarrow> ThreadLocalKey \<Rightarrow> ThreadLocalKey \<Rightarrow> process
     \<Rightarrow> process outcome" where
  "Thread_DeleteThreadLocal debug os kUnsetThreadLocalKey key p =
     ASSERT debug (key \<noteq> kUnsetThreadLocalKey)
      (case syscall os (pthread_key_delete key) p of (result, p1) \<Rightarrow>
       VALIDATE_PTHREAD_RESULT result (Returned p1))"

definition Thread_SetThreadLocal ::
  "bool \<Rightarrow> (os_call \<Rightarrow> int) \<Rightarrow> ThreadLocalKey \<Rightarrow> ThreadLocalKey \<Rightarrow> uword \<Rightarrow> process
     \<Rightarrow> process outcome" where
  "Thread_SetThreadLocal debug os kUnsetThreadLocalKey key v p =
     ASSERT debug (key \<noteq> kUnsetThreadLocalKey)
      (case syscall os (pthread_setspecific key v) p of (result, p1) \<Rightarrow>
       VALIDATE_PTHREAD_RESULT result (Returned p1))"

text \<open>
  \<open>ThreadIdToIntPtr\<close> and \<open>ThreadIdFromIntPtr\<close>. \<open>ThreadId\<close> is an unsigned integer type
  and \<open>intptr_t\<close> a signed one; the widths are kept general (\<open>'a\<close> for \<open>ThreadId\<close>, \<open>'b\<close> for
  \<open>intptr_t\<close>) so that the assertion on the sizes says something. Converting from the
  unsigned type keeps the value modulo the target width; converting from the signed type
  extends the sign.
\<close>

definition ThreadIdToIntPtr :: "bool \<Rightarrow> 'a::len word \<Rightarrow> 'b::len word outcome" where
  "ThreadIdToIntPtr debug ident =
     ASSERT debug (LENGTH('a) = LENGTH('b))
      (Returned (ucast ident))"

definition ThreadIdFromIntPtr :: "'b::len word \<Rightarrow> 'a::len word" where
  "ThreadIdFromIntPtr ident = scast ident"

subsection \<open>Mutex\<close>

text \<open>
  A \<open>Mutex\<close> holds its pthread mutex (\<open>data_.mutex()\<close>, identified by its address) and, in
  DEBUG builds, the member \<open>owner_\<close>. Release builds have no such member: the model keeps the
  field and never reads or writes it after construction when \<open>debug\<close> is false. A \<open>Monitor\<close>
  has the same two members and a condition variable (\<open>data_.cond()\<close>).
\<close>

record Mutex =
  mutex :: addr
  owner :: ThreadId

record Monitor = Mutex +
  cond :: addr

text \<open>
  Modelled from the spec: \<open>IsOwnedByCurrentThread\<close>, \<open>CheckHeldAndUnmark\<close> and
  \<open>CheckUnheldAndMark\<close> of \<open>Mutex\<close> and \<open>Monitor\<close> are defined in vm/thread.h, which is not
  among the sources. Following the spec, checked builds track the owning thread and assert
  that a primitive is unheld when it is acquired and held by the caller when it is released;
  other builds do nothing. \<open>self\<close> is the calling thread (\<open>Thread::GetCurrentThreadId()\<close>).
\<close>

definition IsOwnedByCurrentThread :: "ThreadId \<Rightarrow> 'a Mutex_scheme \<Rightarrow> bool" where
  "IsOwnedByCurrentThread self m = (owner m = self)"

definition CheckHeldAndUnmark ::
  "bool \<Rightarrow> ThreadId \<Rightarrow> 'a Mutex_scheme \<Rightarrow> 'a Mutex_scheme outcome" where
  "CheckHeldAndUnmark debug self m =
     (if debug
      then ASSERT debug (IsOwnedByCurrentThread self m)
            (Returned (m\<lparr>owner := kInvalidThreadId\<rparr>))
      else Returned m)"

definition CheckUnheldAndMark ::
  "bool \<Rightarrow> ThreadId \<Rightarrow> 'a Mutex_scheme \<Rightarrow> 'a Mutex_scheme outcome" where
  "CheckUnheldAndMark debug self m =
     (if debug
      then ASSERT debug (owner m = kInvalidThreadId)
            (Returned (m\<lparr>owner := self\<rparr>))
      else Returned m)"

text \<open>\<open>Mutex::Mutex()\<close>, constructing the object whose pthread mutex lives at \<open>mtx\<close>.\<close>

definition Mutex_ctor ::
  "bool \<Rightarrow> (os_call \<Rightarrow> int) \<Rightarrow> addr \<Rightarrow> process \<Rightarrow> (Mutex \<times> process) outcome" where
  "Mutex_ctor debug os mtx p =
     (case syscall os pthread_mutexattr_init p of (result, p1) \<Rightarrow>
      VALIDATE_PTHREAD_RESULT result
       (and_then
         (if debug
          then (case syscall os pthread_mutexattr_settype_ERRORCHECK p1 of (result, p2) \<Rightarrow>
                VALIDATE_PTHREAD_RESULT result (Returned p2))
          else Returned p1)
         (\<lambda>p2.
           case syscall os (pthread_mutex_init mtx) p2 of (result, p3) \<Rightarrow>
           VALIDATE_PTHREAD_RESULT result
            (case syscall os pthread_mutexattr_destroy p3 of (result, p4) \<Rightarrow>
             VALIDATE_PTHREAD_RESULT result
              (Returned (\<lparr> mutex = mtx, owner = kInvalidThreadId \<rparr>, p4))))))"

text \<open>\<open>Mutex::~Mutex()\<close>.\<close>

definition Mutex_dtor ::
  "bool \<Rightarrow> (os_call \<Rightarrow> int) \<Rightarrow> Mutex \<Rightarrow> process \<Rightarrow> process outcome" where
  "Mutex_dtor debug os m p =
     (case syscall os (pthread_mutex_destroy (mutex m)) p of (result, p1) \<Rightarrow>
      VALIDATE_PTHREAD_RESULT result
       (ASSERT debug (owner m = kInvalidThreadId)
         (Returned p1)))"

text \<open>\<open>Mutex::Lock()\<close>.\<close>

definition Mutex_Lock ::
  "bool \<Rightarrow> (os_call \<Rightarrow> int) \<Rightarrow> ThreadId \<Rightarrow> Mutex \<Rightarrow> process \<Rightarrow> (Mutex \<times> process) outcome" where
  "Mutex_Lock debug os self m p =
     (case syscall os (pthread_mutex_lock (mutex m)) p of (result, p1) \<Rightarrow>
      ASSERT debug (result \<noteq> EDEADLK)
       (ASSERT_PTHREAD_SUCCESS debug result
         (and_then (CheckUnheldAndMark debug self m) (\<lambda>m1.
           Returned (m1, p1)))))"

text \<open>\<open>Mutex::TryLock()\<close>.\<close>

definition Mutex_TryLock ::
  "bool \<Rightarrow> (os_call \<Rightarrow> int) \<Rightarrow> ThreadId \<Rightarrow> Mutex \<Rightarrow> process
     \<Rightarrow> (bool \<times> Mutex \<times> process) outcome" where
  "Mutex_TryLock debug os self m p =
     (case syscall os (pthread_mutex_trylock (mutex m)) p of (result, p1) \<Rightarrow>
      if result = EBUSY then Returned (False, m, p1)
      else
       ASSERT_PTHREAD_SUCCESS debug result
        (and_then (CheckUnheldAndMark debug self m) (\<lambda>m1.
          Returned (True, m1, p1))))"

text \<open>\<open>Mutex::Unlock()\<close>.\<close>

definition Mutex_Unlock ::
  "bool \<Rightarrow> (os_call \<Rightarrow> int) \<Rightarrow> ThreadId \<Rightarrow> Mutex \<Rightarrow> process \<Rightarrow> (Mutex \<times> process) outcome" where
  "Mutex_Unlock debug os self m p =
     and_then (CheckHeldAndUnmark debug self m) (\<lambda>m1.
      case syscall os (pthread_mutex_unlock (mutex m1)) p of (result, p1) \<Rightarrow>
      ASSERT debug (result \<noteq> EPERM)
       (ASSERT_PTHREAD_SUCCESS debug result
         (Returned (m1, p1))))"

subsection \<open>Monitor\<close>

text \<open>\<open>Monitor::Monitor()\<close>, for the pthread mutex at \<open>mtx\<close> and condition variable at \<open>cnd\<close>.\<close>

definition Monitor_ctor ::
  "bool \<Rightarrow> (os_call \<Rightarrow> int) \<Rightarrow> addr \<Rightarrow> addr \<Rightarrow> process \<Rightarrow> (Monitor \<times> process) outcome" where
  "Monitor_ctor debug os mtx cnd p =
     (case syscall os pthread_mutexattr_init p of (result, p1) \<Rightarrow>
      VALIDATE_PTHREAD_RESULT result
       (and_then
         (if debug
          then (case syscall os pthread_mutexattr_settype_ERRORCHECK p1 of (result, p2) \<Rightarrow>
                VALIDATE_PTHREAD_RESULT result (Returned p2))
          else Returned p1)
         (\<lambda>p2.
           case syscall os (pthread_mutex_init mtx) p2 of (result, p3) \<Rightarrow>
           VALIDATE_PTHREAD_RESULT result
            (case syscall os pthread_mutexattr_destroy p3 of (result, p4) \<Rightarrow>
             VALIDATE_PTHREAD_RESULT result
              (case syscall os pthread_condattr_init p4 of (result, p5) \<Rightarrow>
               VALIDATE_PTHREAD_RESULT result
                (case syscall os pthread_condattr_setclock_MONOTONIC p5 of (result, p6) \<Rightarrow>
                 VALIDATE_PTHREAD_RESULT result
                  (case syscall os (pthread_cond_init cnd) p6 of (result, p7) \<Rightarrow>
                   VALIDATE_PTHREAD_RESULT result
                    (case syscall os pthread_condattr_destroy p7 of (result, p8) \<Rightarrow>
                     VALIDATE_PTHREAD_RESULT result
                      (Returned (\<lparr> mutex = mtx, owner = kInvalidThreadId, cond = cnd \<rparr>,
                                 p8))))))))))"

text \<open>\<open>Monitor::~Monitor()\<close>.\<close>

definition Monitor_dtor ::
  "bool \<Rightarrow> (os_call \<Rightarrow> int) \<Rightarrow> Monitor \<Rightarrow> process \<Rightarrow> process outcome" where
  "Monitor_dtor debug os m p =
     ASSERT debug (owner m = kInvalidThreadId)
      (case syscall os (pthread_mutex_destroy (mutex m)) p of (result, p1) \<Rightarrow>
       VALIDATE_PTHREAD_RESULT result
        (case syscall os (pthread_cond_destroy (cond m)) p1 of (result, p2) \<Rightarrow>
         VALIDATE_PTHREAD_RESULT result (Returned p2)))"

text \<open>\<open>Monitor::TryEnter()\<close>.\<close>

definition Monitor_TryEnter ::
  "bool \<Rightarrow> (os_call \<Rightarrow> int) \<Rightarrow> ThreadId \<Rightarrow> Monitor \<Rightarrow> process
     \<Rightarrow> (bool \<times> Monitor \<times> process) outcome" where
  "Monitor_TryEnter debug os self m p =
     (case syscall os (pthread_mutex_trylock (mutex m)) p of (result, p1) \<Rightarrow>
      if result = EBUSY then Returned (False, m, p1)
      else
       ASSERT_PTHREAD_SUCCESS debug result
        (and_then (CheckUnheldAndMark debug self m) (\<lambda>m1.
          Returned (True, m1, p1))))"

text \<open>\<open>Monitor::Enter()\<close>, \<open>Monitor::Exit()\<close> and \<open>Monitor::Wait()\<close>.\<close>

definition Monitor_Enter ::
  "bool \<Rightarrow> (os_call \<Rightarrow> int) \<Rightarrow> ThreadId \<Rightarrow> Monitor \<Rightarrow> process
     \<Rightarrow> (Monitor \<times> process) outcome" where
  "Monitor_Enter debug os self m p =
     (case syscall os (pthread_mutex_lock (mutex m)) p of (result, p1) \<Rightarrow>
      VALIDATE_PTHREAD_RESULT result
       (and_then (CheckUnheldAndMark debug self m) (\<lambda>m1.
         Returned (m1, p1))))"

definition Monitor_Exit ::
  "bool \<Rightarrow> (os_call \<Rightarrow> int) \<Rightarrow> ThreadId \<Rightarrow> Monitor \<Rightarrow> process
     \<Rightarrow> (Monitor \<times> process) outcome" where
  "Monitor_Exit debug os self m p =
     and_then (CheckHeldAndUnmark debug self m) (\<lambda>m1.
      case syscall os (pthread_mutex_unlock (mutex m1)) p of (result, p1) \<Rightarrow>
      VALIDATE_PTHREAD_RESULT result (Returned (m1, p1)))"

definition Monitor_Wait ::
  "bool \<Rightarrow> (os_call \<Rightarrow> int) \<Rightarrow> ThreadId \<Rightarrow> Monitor \<Rightarrow> process
     \<Rightarrow> (Monitor \<times> process) outcome" where
  "Monitor_Wait debug os self m p =
     and_then (CheckHeldAndUnmark debug self m) (\<lambda>m1.
      case syscall os (pthread_cond_wait (cond m1) (mutex m1)) p of (result, p1) \<Rightarrow>
      VALIDATE_PTHREAD_RESULT result
       (and_then (CheckUnheldAndMark debug self m1) (\<lambda>m2.
         Returned (m2, p1))))"

text \<open>
  Modelled from the spec: \<open>kNanosecondsPerSecond\<close> and \<open>kMaxInt32\<close> are declared in
  vm/globals.h, which is not among the sources: the number of nanoseconds in a second and
  the largest value of \<open>int32_t\<close>.
\<close>

definition kNanosecondsPerSecond :: int64_t where
  "kNanosecondsPerSecond = 1000000000"

definition kMaxInt32 :: int64_t where
  "kMaxInt32 = 2147483647"

text \<open>Division and remainder of \<open>int64_t\<close> as C++ has them: the quotient is truncated
  towards zero and the remainder takes the sign of the dividend.\<close>

definition int64_div :: "int64_t \<Rightarrow> int64_t \<Rightarrow> int64_t" where
  "int64_div a b = word_of_int (sint a sdiv sint b)"

definition int64_mod :: "int64_t \<Rightarrow> int64_t \<Rightarrow> int64_t" where
  "int64_mod a b = word_of_int (sint a smod sint b)"

text \<open>
  The \<open>timespec\<close> that \<open>Monitor::WaitUntilNanos\<close> computes from its deadline.
  \<open>static_cast<int32_t>\<close> keeps the low 32 bits, read as a signed number; storing the \<open>int32_t\<close> in \<open>tv_sec\<close> extends
  its sign.
\<close>

definition WaitUntilNanos_timespec :: "int64_t \<Rightarrow> timespec" where
  "WaitUntilNanos_timespec deadline =
     (let secs = int64_div deadline kNanosecondsPerSecond;
          nanos = int64_mod deadline kNanosecondsPerSecond;
          secs = (if sint secs > sint kMaxInt32 then kMaxInt32 else secs)
      in \<lparr> tv_sec = scast (scast secs :: int32_t), tv_nsec = nanos \<rparr>)"

datatype WaitResult = kNotified | kTimedOut

text \<open>\<open>Monitor::WaitUntilNanos(int64_t deadline)\<close>.\<close>

definition Monitor_WaitUntilNanos ::
  "bool \<Rightarrow> (os_call \<Rightarrow> int) \<Rightarrow> ThreadId \<Rightarrow> int64_t \<Rightarrow> Monitor \<Rightarrow> process
     \<Rightarrow> (WaitResult \<times> Monitor \<times> process) outcome" where
  "Monitor_WaitUntilNanos debug os self deadline m p =
     and_then (CheckHeldAndUnmark debug self m) (\<lambda>m1.
      let retval = kNotified;
          ts = WaitUntilNanos_timespec deadline
      in case syscall os (pthread_cond_timedwait (cond m1) (mutex m1) ts) p of (result, p1) \<Rightarrow>
         ASSERT debug (result = 0 \<or> result = ETIMEDOUT)
          (let retval = (if result = ETIMEDOUT then kTimedOut else retval)
           in and_then (CheckUnheldAndMark debug self m1) (\<lambda>m2.
                Returned (retval, m2, p1))))"

text \<open>\<open>Monitor::Notify()\<close> and \<open>Monitor::NotifyAll()\<close>.\<close>

definition Monitor_Notify ::
  "bool \<Rightarrow> (os_call \<Rightarrow> int) \<Rightarrow> ThreadId \<Rightarrow> Monitor \<Rightarrow> process \<Rightarrow> process outcome" where
  "Monitor_Notify debug os self m p =
     DEBUG_ASSERT debug (IsOwnedByCurrentThread self m)
      (case syscall os (pthread_cond_signal (cond m)) p of (result, p1) \<Rightarrow>
       VALIDATE_PTHREAD_RESULT result (Returned p1))"

definition Monitor_NotifyAll ::
  "bool \<Rightarrow> (os_call \<Rightarrow> int) \<Rightarrow> ThreadId \<Rightarrow> Monitor \<Rightarrow> process \<Rightarrow> process outcome" where
  "Monitor_NotifyAll debug os self m p =
     DEBUG_ASSERT debug (IsOwnedByCurrentThread self m)
      (case syscall os (pthread_cond_broadcast (cond m)) p of (result, p1) \<Rightarrow>
       VALIDATE_PTHREAD_RESULT result (Returned p1))"

subsection \<open>Sample inputs\<close>

text \<open>A process that has made no calls and holds no objects, an operating system that
  fails \<open>pthread_attr_init\<close> with 11, and one that fails thread creation, mutex
  initialisation and key creation and deletion, and reports a busy lock.\<close>

definition idle_process :: process where
  "idle_process = \<lparr> start_data = Map.empty, threads = Map.empty, current = (\<lambda>t. NULL),
                     calls = [] \<rparr>"

definition attr_init_failing_os :: "os_call \<Rightarrow> int" where
  "attr_init_failing_os c = (if c = pthread_attr_init then 11 else 0)"

definition failing_os :: "os_call \<Rightarrow> int" where
  "failing_os c =
     (if c = pthread_create 4096 then 11
      else if c = pthread_mutex_init 64 then 12
      else if c = pthread_cond_init 128 then 12
      else if c = pthread_key_create 0 then 11
      else if c = pthread_key_delete 5 then 22
      else if c = pthread_mutex_trylock 64 then EBUSY
      else 0)"

text \<open>A mutex and a monitor whose owner mark names thread 77, and their unheld forms.\<close>

definition held_mutex :: Mutex where
  "held_mutex = \<lparr> mutex = 64, owner = 77 \<rparr>"

definition unheld_mutex :: Mutex where
  "unheld_mutex = \<lparr> mutex = 64, owner = kInvalidThreadId \<rparr>"

definition held_monitor :: Monitor where
  "held_monitor = \<lparr> mutex = 64, owner = 77, cond = 128 \<rparr>"

definition unheld_monitor :: Monitor where
  "unheld_monitor = \<lparr> mutex = 64, owner = kInvalidThreadId, cond = 128 \<rparr>"

text \<open>An operating system that rejects every call with the error 22.\<close>

definition rejecting_os :: "os_call \<Rightarrow> int" where
  "rejecting_os c = 22"

section \<open>Properties of IsolateMessage\<close>

lemmas IsolateMessage_defs = IsolateMessage_data_def IsolateMessage_args_def
  data_def length_of_def argv_def argc_def dest_port_def has_data_def has_args_def

text \<open>
  C3, as stated, fails: a message is said to carry exactly one of the two payload shapes,
  told apart by which side is non-null or non-zero. The byte-buffer constructor called with
  a null buffer and length zero yields a message with neither side populated, equal to the
  one the argument-list constructor yields for a zero count and a null list.
\<close>

theorem IsolateMessage_empty_payload_not_discriminated:
  "\<not> has_data (IsolateMessage_data 7 NULL 0)
   \<and> \<not> has_args (IsolateMessage_data 7 NULL 0)
   \<and> IsolateMessage_data 7 NULL 0 = IsolateMessage_args 7 0 NULL"
  by (simp add: IsolateMessage_defs)

text \<open>
  C3, amended: a message built with the byte-buffer constructor has \<open>argv()\<close> null and
  \<open>argc()\<close> zero, and a message built with the argument-list constructor has \<open>data()\<close> null
  and \<open>length()\<close> zero. So a constructed message carries at most one of the two payload
  shapes: the other constructor's side is never populated, and its own side is populated
  exactly when the constructor was given a non-null pointer or a non-zero count.
\<close>

theorem IsolateMessage_payload_shapes:
  "argv (IsolateMessage_data dest d len) = NULL
   \<and> argc (IsolateMessage_data dest d len) = 0
   \<and> data (IsolateMessage_args dest c v) = NULL
   \<and> length_of (IsolateMessage_args dest c v) = 0
   \<and> \<not> has_args (IsolateMessage_data dest d len)
   \<and> \<not> has_data (IsolateMessage_args dest c v)
   \<and> \<not> (has_data (IsolateMessage_data dest d len) \<and> has_args (IsolateMessage_data dest d len))
   \<and> \<not> (has_data (IsolateMessage_args dest c v) \<and> has_args (IsolateMessage_args dest c v))
   \<and> (has_data (IsolateMessage_data dest d len) \<longleftrightarrow> d \<noteq> NULL \<or> len \<noteq> 0)
   \<and> (has_args (IsolateMessage_args dest c v) \<longleftrightarrow> v \<noteq> NULL \<or> c \<noteq> 0)"
  by (simp add: IsolateMessage_defs)

text \<open>C3, amended, at a 4-byte message for port 7 and at a two-argument message.\<close>

theorem IsolateMessage_payload_shapes_witness:
  "argv (IsolateMessage_data 7 4096 4) = NULL
   \<and> argc (IsolateMessage_data 7 4096 4) = 0
   \<and> data (IsolateMessage_args 7 2 8192) = NULL
   \<and> length_of (IsolateMessage_args 7 2 8192) = 0
   \<and> has_data (IsolateMessage_data 7 4096 4)
   \<and> \<not> has_args (IsolateMessage_data 7 4096 4)
   \<and> has_args (IsolateMessage_args 7 2 8192)
   \<and> \<not> has_data (IsolateMessage_args 7 2 8192)"
  using IsolateMessage_payload_shapes [where dest = 7 and d = 4096 and len = 4 and c = 2 and v = 8192]
  by (simp add: NULL_def)

text \<open>
  C2: destroying a message frees the owned byte buffer; when the buffer pointer is null, as
  it is for every message built with the argument-list constructor, destruction leaves the
  heap as it is. Destruction changes no allocation other than the byte buffer, so the
  argument-list memory is neither freed nor modified.
\<close>

theorem IsolateMessage_destroy_frees_only_data:
  "(data m = NULL \<longrightarrow> IsolateMessage_destroy h m = Some h)
   \<and> IsolateMessage_destroy h (IsolateMessage_args dest c v) = Some h
   \<and> (data m \<noteq> NULL \<and> h (data m) \<noteq> None \<longrightarrow>
        IsolateMessage_destroy h m = Some (h(data m := None)))
   \<and> (\<forall>h'. IsolateMessage_destroy h m = Some h' \<longrightarrow>
        (\<forall>a. a \<noteq> data m \<longrightarrow> h' a = h a))
   \<and> (\<forall>h'. IsolateMessage_destroy h (IsolateMessage_data dest d len) = Some h' \<longrightarrow>
        argv (IsolateMessage_data dest d len) = NULL \<and> (\<forall>a. a \<noteq> d \<longrightarrow> h' a = h a))"
  by (auto simp: IsolateMessage_destroy_def free_def IsolateMessage_defs split: if_splits)

text \<open>
  C2 on a heap holding a byte buffer at 4096 and an argument list at 8192: destroying the
  byte-buffer message releases 4096 and keeps 8192; destroying the argument-list message
  changes nothing.
\<close>

theorem IsolateMessage_destroy_frees_only_data_witness:
  "data (IsolateMessage_args 7 2 8192) = NULL
   \<and> IsolateMessage_destroy [4096 \<mapsto> ''abcd'', 8192 \<mapsto> ''argv''] (IsolateMessage_args 7 2 8192)
       = Some [4096 \<mapsto> ''abcd'', 8192 \<mapsto> ''argv'']
   \<and> data (IsolateMessage_data 7 4096 4) \<noteq> NULL
   \<and> [4096 \<mapsto> ''abcd'', 8192 \<mapsto> ''argv''] (data (IsolateMessage_data 7 4096 4)) \<noteq> None
   \<and> IsolateMessage_destroy [4096 \<mapsto> ''abcd'', 8192 \<mapsto> ''argv''] (IsolateMessage_data 7 4096 4)
       = Some [8192 \<mapsto> ''argv'']"
  using IsolateMessage_destroy_frees_only_data
    [where m = "IsolateMessage_data 7 4096 4" and h = "[4096 \<mapsto> ''abcd'', 8192 \<mapsto> ''argv'']"
       and dest = 7 and c = 2 and v = 8192 and d = 4096 and len = 4]
  by (auto simp: IsolateMessage_defs NULL_def)

section \<open>Properties of Thread\<close>

lemmas macro_defs = syscall_def RETURN_ON_PTHREAD_FAILURE_def VALIDATE_PTHREAD_RESULT_def
  ASSERT_def DEBUG_ASSERT_def ASSERT_PTHREAD_SUCCESS_def CheckHeldAndUnmark_def
  CheckUnheldAndMark_def IsOwnedByCurrentThread_def

text \<open>
  C10: with \<open>ThreadId\<close> and \<open>intptr_t\<close> of the same size, as \<open>ThreadIdToIntPtr\<close> asserts,
  converting a thread id to \<open>intptr_t\<close> and back gives the thread id.
\<close>

theorem ThreadIdFromIntPtr_ThreadIdToIntPtr:
  "LENGTH('a::len) = LENGTH('b::len) \<Longrightarrow>
     \<exists>i::'b word. ThreadIdToIntPtr debug (ident::'a word) = Returned i
                  \<and> (ThreadIdFromIntPtr i :: 'a word) = ident"
proof -
  assume len: "LENGTH('a) = LENGTH('b)"
  have "(scast (ucast ident :: 'b word) :: 'a word) = ident"
    by (rule bit_word_eqI) (auto simp add: bit_simps len)
  with len show ?thesis
    by (simp add: ThreadIdToIntPtr_def ThreadIdFromIntPtr_def ASSERT_def)
qed

text \<open>C10 at the 64-bit types of the platform and the largest thread id.\<close>

theorem ThreadIdFromIntPtr_ThreadIdToIntPtr_witness:
  "LENGTH(64) = LENGTH(64)
   \<and> (\<exists>i::intptr_t. ThreadIdToIntPtr True (18446744073709551615::ThreadId) = Returned i
         \<and> (ThreadIdFromIntPtr i :: ThreadId) = 18446744073709551615)"
  using ThreadIdFromIntPtr_ThreadIdToIntPtr
    [where 'a = 64 and 'b = 64 and debug = True and ident = 18446744073709551615]
  by simp

lemma Thread_Start_returns:
  "\<exists>p'. Thread_Start debug os nd name f x p =
      Returned (if os pthread_attr_init \<noteq> 0 then os pthread_attr_init
                else if os (pthread_create nd) \<noteq> 0 then os (pthread_create nd)
                else os pthread_attr_destroy, p')"
  by (simp add: Thread_Start_def macro_defs Let_def)

lemma Mutex_ctor_fatal:
  "os pthread_mutexattr_init \<noteq> 0 \<or> (debug \<and> os pthread_mutexattr_settype_ERRORCHECK \<noteq> 0)
     \<or> os (pthread_mutex_init mtx) \<noteq> 0 \<or> os pthread_mutexattr_destroy \<noteq> 0
   \<Longrightarrow> \<exists>r. r \<noteq> 0 \<and> Mutex_ctor debug os mtx p = Fatal r"
  by (auto simp add: Mutex_ctor_def macro_defs)

lemma Monitor_ctor_fatal:
  "os pthread_mutexattr_init \<noteq> 0 \<or> (debug \<and> os pthread_mutexattr_settype_ERRORCHECK \<noteq> 0)
     \<or> os (pthread_mutex_init mtx) \<noteq> 0 \<or> os pthread_mutexattr_destroy \<noteq> 0
     \<or> os pthread_condattr_init \<noteq> 0 \<or> os pthread_condattr_setclock_MONOTONIC \<noteq> 0
     \<or> os (pthread_cond_init cnd) \<noteq> 0 \<or> os pthread_condattr_destroy \<noteq> 0
   \<Longrightarrow> \<exists>r. r \<noteq> 0 \<and> Monitor_ctor debug os mtx cnd p = Fatal r"
  by (auto simp add: Monitor_ctor_def macro_defs)

lemma ThreadLocal_key_fatal:
  "(os (pthread_key_create d) \<noteq> 0 \<longrightarrow>
      Thread_CreateThreadLocal debug os unset nk d p = Fatal (os (pthread_key_create d)))
   \<and> (os (pthread_key_delete k) \<noteq> 0 \<longrightarrow>
      terminates_process (Thread_DeleteThreadLocal debug os unset k p))"
  by (simp add: Thread_CreateThreadLocal_def Thread_DeleteThreadLocal_def macro_defs)

lemma TryLock_busy:
  "os (pthread_mutex_trylock (mutex m)) = EBUSY \<Longrightarrow>
     Mutex_TryLock debug os self m p =
       Returned (False, m, p\<lparr>calls := calls p @ [pthread_mutex_trylock (mutex m)]\<rparr>)"
  by (simp add: Mutex_TryLock_def macro_defs)

lemma TryEnter_busy:
  "os (pthread_mutex_trylock (mutex n)) = EBUSY \<Longrightarrow>
     Monitor_TryEnter debug os self n p =
       Returned (False, n, p\<lparr>calls := calls p @ [pthread_mutex_trylock (mutex n)]\<rparr>)"
  by (simp add: Monitor_TryEnter_def macro_defs)

text \<open>
  C1, as stated, fails: a failure of thread creation is said to terminate the process
  rather than being reported to the caller. When \<open>pthread_attr_init\<close> answers 11,
  \<open>Thread::Start\<close> returns 11 to its caller and the process goes on.
\<close>

theorem Thread_Start_failure_not_fatal:
  "Thread_Start False attr_init_failing_os 4096 ''worker'' 8192 0 idle_process
     = Returned (11, idle_process\<lparr>calls := [pthread_attr_init]\<rparr>)
   \<and> \<not> terminates_process
        (Thread_Start False attr_init_failing_os 4096 ''worker'' 8192 0 idle_process)"
  by (simp add: Thread_Start_def macro_defs attr_init_failing_os_def idle_process_def)

text \<open>
  C1, amended: \<open>Thread::Start\<close> never terminates the process on an OS failure of thread
  creation; it returns to its caller the non-zero result of the first of
  \<open>pthread_attr_init\<close>, \<open>pthread_create\<close> and \<open>pthread_attr_destroy\<close> that fails, and 0 when
  none does. OS failures in mutex and monitor initialisation and in thread-local key
  creation and deletion are fatal, and the busy case of \<open>TryLock\<close> and \<open>TryEnter\<close> is not:
  it returns false.
\<close>

theorem Thread_Start_reports_failure_to_caller:
  "(\<exists>p'. Thread_Start debug os nd name f x p =
      Returned (if os pthread_attr_init \<noteq> 0 then os pthread_attr_init
                else if os (pthread_create nd) \<noteq> 0 then os (pthread_create nd)
                else os pthread_attr_destroy, p'))
   \<and> \<not> terminates_process (Thread_Start debug os nd name f x p)
   \<and> (os pthread_mutexattr_init \<noteq> 0 \<or> (debug \<and> os pthread_mutexattr_settype_ERRORCHECK \<noteq> 0)
        \<or> os (pthread_mutex_init mtx) \<noteq> 0 \<or> os pthread_mutexattr_destroy \<noteq> 0 \<longrightarrow>
       (\<exists>r. r \<noteq> 0 \<and> Mutex_ctor debug os mtx p = Fatal r))
   \<and> (os pthread_mutexattr_init \<noteq> 0 \<or> (debug \<and> os pthread_mutexattr_settype_ERRORCHECK \<noteq> 0)
        \<or> os (pthread_mutex_init mtx) \<noteq> 0 \<or> os pthread_mutexattr_destroy \<noteq> 0
        \<or> os pthread_condattr_init \<noteq> 0 \<or> os pthread_condattr_setclock_MONOTONIC \<noteq> 0
        \<or> os (pthread_cond_init cnd) \<noteq> 0 \<or> os pthread_condattr_destroy \<noteq> 0 \<longrightarrow>
       (\<exists>r. r \<noteq> 0 \<and> Monitor_ctor debug os mtx cnd p = Fatal r))
   \<and> (os (pthread_key_create d) \<noteq> 0 \<longrightarrow>
       Thread_CreateThreadLocal debug os unset nk d p = Fatal (os (pthread_key_create d)))
   \<and> (os (pthread_key_delete k) \<noteq> 0 \<longrightarrow>
       terminates_process (Thread_DeleteThreadLocal debug os unset k p))
   \<and> (os (pthread_mutex_trylock (mutex m)) = EBUSY \<longrightarrow>
       Mutex_TryLock debug os self m p =
         Returned (False, m, p\<lparr>calls := calls p @ [pthread_mutex_trylock (mutex m)]\<rparr>))
   \<and> (os (pthread_mutex_trylock (mutex n)) = EBUSY \<longrightarrow>
       Monitor_TryEnter debug os self n p =
         Returned (False, n, p\<lparr>calls := calls p @ [pthread_mutex_trylock (mutex n)]\<rparr>))"
proof -
  obtain p' where start: "Thread_Start debug os nd name f x p =
      Returned (if os pthread_attr_init \<noteq> 0 then os pthread_attr_init
                else if os (pthread_create nd) \<noteq> 0 then os (pthread_create nd)
                else os pthread_attr_destroy, p')"
    using Thread_Start_returns by blast
  then have "\<not> terminates_process (Thread_Start debug os nd name f x p)"
    by simp
  with start show ?thesis
    using Mutex_ctor_fatal [of os debug mtx p] Monitor_ctor_fatal [of os debug mtx cnd p]
      ThreadLocal_key_fatal [of os d debug unset nk p k] TryLock_busy [of os m debug self p]
      TryEnter_busy [of os n debug self p]
    by blast
qed

text \<open>
  C1, amended, in a DEBUG build on an operating system that fails \<open>pthread_create\<close>,
  \<open>pthread_mutex_init\<close>, \<open>pthread_cond_init\<close>, \<open>pthread_key_create\<close> and
  \<open>pthread_key_delete\<close> and reports the lock busy.
\<close>

theorem Thread_Start_reports_failure_to_caller_witness:
  "(\<exists>p'. Thread_Start True failing_os 4096 ''worker'' 8192 0 idle_process = Returned (11, p'))
   \<and> failing_os (pthread_mutex_init 64) \<noteq> 0
   \<and> (\<exists>r. r \<noteq> 0 \<and> Mutex_ctor True failing_os 64 idle_process = Fatal r)
   \<and> (\<exists>r. r \<noteq> 0 \<and> Monitor_ctor True failing_os 64 128 idle_process = Fatal r)
   \<and> failing_os (pthread_key_create 0) \<noteq> 0
   \<and> Thread_CreateThreadLocal True failing_os (- 1) 3 0 idle_process = Fatal 11
   \<and> failing_os (pthread_key_delete 5) \<noteq> 0
   \<and> terminates_process (Thread_DeleteThreadLocal True failing_os (- 1) 5 idle_process)
   \<and> failing_os (pthread_mutex_trylock (mutex unheld_mutex)) = EBUSY
   \<and> Mutex_TryLock True failing_os 77 unheld_mutex idle_process =
        Returned (False, unheld_mutex, idle_process\<lparr>calls := [pthread_mutex_trylock 64]\<rparr>)
   \<and> Monitor_TryEnter True failing_os 77 unheld_monitor idle_process =
        Returned (False, unheld_monitor, idle_process\<lparr>calls := [pthread_mutex_trylock 64]\<rparr>)"
  using Thread_Start_reports_failure_to_caller
    [where debug = True and os = failing_os and nd = 4096 and name = "''worker''" and f = 8192
       and x = 0 and p = idle_process and mtx = 64 and cnd = 128 and d = 0 and unset = "- 1"
       and nk = 3 and k = 5 and m = unheld_mutex and n = unheld_monitor and self = 77]
  by (simp add: failing_os_def idle_process_def unheld_mutex_def unheld_monitor_def EBUSY_def)





subsection \<open>The deadline of WaitUntilNanos\<close>

lemma sint64_bounds:
  "- 9223372036854775808 \<le> sint (a::64 word) \<and> sint a \<le> 9223372036854775807"
  using sint_ge [of a] sint_lt [of a] by simp

lemma sdiv_billion_bounds:
  assumes "- 9223372036854775808 \<le> (k::int)" "k \<le> 9223372036854775807"
  shows "- 9223372036 \<le> k sdiv 1000000000 \<and> k sdiv 1000000000 \<le> 9223372036"
proof (cases "0 \<le> k")
  case True
  then have "k sdiv 1000000000 = k div 1000000000"
    by (simp add: signed_divide_int_def sgn_if)
  moreover have "k div 1000000000 \<le> 9223372036854775807 div 1000000000"
    using assms(2) by (intro zdiv_mono1) simp_all
  moreover have "0 \<le> k div 1000000000"
    using True by simp
  ultimately show ?thesis by simp
next
  case False
  then have "k sdiv 1000000000 = - ((- k) div 1000000000)"
    by (simp add: signed_divide_int_def sgn_if)
  moreover have "(- k) div 1000000000 \<le> 9223372036854775808 div 1000000000"
    using assms(1) by (intro zdiv_mono1) simp_all
  moreover have "0 \<le> (- k) div 1000000000"
    using False by simp
  ultimately show ?thesis by simp
qed

lemma smod_billion_bounds:
  "- 1000000000 < (k::int) smod 1000000000 \<and> k smod 1000000000 < 1000000000"
  using smod_int_range [where a = k and b = 1000000000] by simp

lemma sint_word_of_int_64:
  "- 9223372036854775808 \<le> k \<Longrightarrow> k \<le> 9223372036854775807 \<Longrightarrow>
     sint (word_of_int k :: 64 word) = k"
  by (simp add: sint_sbintrunc' signed_take_bit_int_eq_self)

lemma sint_int64_div:
  "sint (int64_div a kNanosecondsPerSecond) = sint a sdiv 1000000000"
  using sdiv_billion_bounds [OF conjunct1 [OF sint64_bounds [of a]] conjunct2 [OF sint64_bounds [of a]]]
  by (simp add: int64_div_def kNanosecondsPerSecond_def sint_word_of_int_64)

lemma sint_int64_mod:
  "sint (int64_mod a kNanosecondsPerSecond) = sint a smod 1000000000"
  using smod_billion_bounds [of "sint a"]
  by (simp add: int64_mod_def kNanosecondsPerSecond_def sint_word_of_int_64)

lemma sint_int32_cast:
  assumes "- 2147483648 \<le> sint (w::64 word)" "sint w \<le> 2147483647"
  shows "sint (scast (scast w :: 32 word) :: 64 word) = sint w"
proof -
  have "sint (scast (scast w :: 32 word) :: 64 word) = sint (scast w :: 32 word)"
    by (rule sint_up_scast) (simp add: is_up)
  also have "\<dots> = signed_take_bit 31 (sint w)"
    using signed_scast_eq [of w, where 'c = 32 and 'a = int] by simp
  also have "\<dots> = sint w"
    using assms by (simp add: signed_take_bit_int_eq_self)
  finally show ?thesis .
qed

text \<open>
  For every deadline whose whole seconds are not below the smallest \<open>int32_t\<close> (every
  non-negative deadline among them), the seconds handed to the wait are the quotient by one
  billion, clamped to \<open>kMaxInt32\<close> from above, and the nanoseconds are the remainder.
\<close>

lemma WaitUntilNanos_timespec_in_range:
  assumes "- 2147483648 \<le> sint deadline sdiv 1000000000"
  shows "sint (tv_sec (WaitUntilNanos_timespec deadline))
           = min (sint deadline sdiv 1000000000) 2147483647
       \<and> sint (tv_nsec (WaitUntilNanos_timespec deadline)) = sint deadline smod 1000000000"
proof -
  have k: "sint kMaxInt32 = 2147483647" by (simp add: kMaxInt32_def)
  show ?thesis
  proof (cases "sint deadline sdiv 1000000000 > 2147483647")
    case True
    then show ?thesis
      using sint_int32_cast [of kMaxInt32]
      by (simp add: WaitUntilNanos_timespec_def Let_def sint_int64_div sint_int64_mod k)
  next
    case False
    then show ?thesis
      using assms sint_int32_cast [of "int64_div deadline kNanosecondsPerSecond"]
      by (simp add: WaitUntilNanos_timespec_def Let_def sint_int64_div sint_int64_mod k)
  qed
qed

text \<open>
  C4 at the deadline \<open>-2147483649000000000\<close>: the quotient by one billion is
  \<open>-2147483649\<close>, below the smallest \<open>int32_t\<close>; nothing clamps it, the conversion to
  \<open>int32_t\<close> wraps, and the wait is handed \<open>2147483647\<close> seconds.
\<close>

theorem WaitUntilNanos_timespec_wraps_below_int32:
  "sint (int64_div (- 2147483649000000000) kNanosecondsPerSecond) = - 2147483649
   \<and> sint (tv_sec (WaitUntilNanos_timespec (- 2147483649000000000))) = 2147483647
   \<and> sint (tv_nsec (WaitUntilNanos_timespec (- 2147483649000000000))) = 0"
  by code_simp

section \<open>Properties of Mutex and Monitor\<close>

text \<open>
  C5: \<open>WaitUntilNanos\<close> returns \<open>kTimedOut\<close> exactly when the timed wait on the condition
  variable answers \<open>ETIMEDOUT\<close>, and \<open>kNotified\<close> otherwise. A timeout is an ordinary result:
  called by the holder, the operation returns with the monitor marked as before. Any
  answer other than success and \<open>ETIMEDOUT\<close> fails the assertion of a DEBUG build; a
  release build, where the assertion expands to nothing, returns \<open>kNotified\<close> for it. The
  deadline is read on the monotonic clock: the constructor sets that clock on the
  attributes it initialises the condition variable with.
\<close>

theorem Monitor_WaitUntilNanos_result:
  "(\<forall>v m' p'. Monitor_WaitUntilNanos debug os self deadline m p = Returned (v, m', p') \<longrightarrow>
       (v = kTimedOut \<longleftrightarrow>
          os (pthread_cond_timedwait (cond m) (mutex m) (WaitUntilNanos_timespec deadline))
            = ETIMEDOUT)
       \<and> (v = kNotified \<longleftrightarrow>
          os (pthread_cond_timedwait (cond m) (mutex m) (WaitUntilNanos_timespec deadline))
            \<noteq> ETIMEDOUT))
   \<and> ((debug \<longrightarrow> owner m = self)
        \<and> os (pthread_cond_timedwait (cond m) (mutex m) (WaitUntilNanos_timespec deadline))
            = ETIMEDOUT \<longrightarrow>
       Monitor_WaitUntilNanos debug os self deadline m p =
         Returned (kTimedOut, m,
           p\<lparr>calls := calls p @
             [pthread_cond_timedwait (cond m) (mutex m) (WaitUntilNanos_timespec deadline)]\<rparr>))
   \<and> ((debug \<longrightarrow> owner m = self)
        \<and> os (pthread_cond_timedwait (cond m) (mutex m) (WaitUntilNanos_timespec deadline))
            = 0 \<longrightarrow>
       Monitor_WaitUntilNanos debug os self deadline m p =
         Returned (kNotified, m,
           p\<lparr>calls := calls p @
             [pthread_cond_timedwait (cond m) (mutex m) (WaitUntilNanos_timespec deadline)]\<rparr>))
   \<and> (debug \<and> owner m = self
        \<and> os (pthread_cond_timedwait (cond m) (mutex m) (WaitUntilNanos_timespec deadline))
            \<noteq> 0
        \<and> os (pthread_cond_timedwait (cond m) (mutex m) (WaitUntilNanos_timespec deadline))
            \<noteq> ETIMEDOUT \<longrightarrow>
       Monitor_WaitUntilNanos debug os self deadline m p = AssertionFailure)
   \<and> Monitor_WaitUntilNanos False os self deadline m p =
       Returned
         (if os (pthread_cond_timedwait (cond m) (mutex m) (WaitUntilNanos_timespec deadline))
               = ETIMEDOUT
          then kTimedOut else kNotified, m,
          p\<lparr>calls := calls p @
            [pthread_cond_timedwait (cond m) (mutex m) (WaitUntilNanos_timespec deadline)]\<rparr>)
   \<and> Monitor_ctor False (\<lambda>c. 0) mtx cnd p =
       Returned (\<lparr> mutex = mtx, owner = kInvalidThreadId, cond = cnd \<rparr>,
         p\<lparr>calls := calls p @
           [pthread_mutexattr_init, pthread_mutex_init mtx, pthread_mutexattr_destroy,
            pthread_condattr_init, pthread_condattr_setclock_MONOTONIC, pthread_cond_init cnd,
            pthread_condattr_destroy]\<rparr>)"
  by (auto simp add: Monitor_WaitUntilNanos_def Monitor_ctor_def macro_defs Let_def
      ETIMEDOUT_def)

text \<open>C5 for the holder of a monitor in a DEBUG build: a wait that times out, a wait
  that is notified, and a wait that the operating system rejects with 22.\<close>

theorem Monitor_WaitUntilNanos_result_witness:
  "owner held_monitor = 77
   \<and> Monitor_WaitUntilNanos True (\<lambda>c. ETIMEDOUT) 77 5000000000 held_monitor idle_process =
       Returned (kTimedOut, held_monitor,
         idle_process\<lparr>calls := [pthread_cond_timedwait 128 64 (WaitUntilNanos_timespec 5000000000)]\<rparr>)
   \<and> Monitor_WaitUntilNanos True (\<lambda>c. 0) 77 5000000000 held_monitor idle_process =
       Returned (kNotified, held_monitor,
         idle_process\<lparr>calls := [pthread_cond_timedwait 128 64 (WaitUntilNanos_timespec 5000000000)]\<rparr>)
   \<and> (22::int) \<noteq> 0 \<and> 22 \<noteq> ETIMEDOUT
   \<and> Monitor_WaitUntilNanos True (\<lambda>c. 22) 77 5000000000 held_monitor idle_process =
       AssertionFailure"
  using Monitor_WaitUntilNanos_result
      [where debug = True and os = "\<lambda>c. ETIMEDOUT" and self = 77 and deadline = 5000000000
         and m = held_monitor and p = idle_process]
    Monitor_WaitUntilNanos_result
      [where debug = True and os = "\<lambda>c. 0" and self = 77 and deadline = 5000000000
         and m = held_monitor and p = idle_process]
    Monitor_WaitUntilNanos_result
      [where debug = True and os = "\<lambda>c. 22" and self = 77 and deadline = 5000000000
         and m = held_monitor and p = idle_process]
  by (simp add: held_monitor_def idle_process_def ETIMEDOUT_def)

text \<open>
  C6, as stated, fails: an OS error other than \<open>EBUSY\<close> is said to be treated as fatal, and
  true to be returned after the lock is acquired and the owner marked. In a release build,
  where \<open>ASSERT_PTHREAD_SUCCESS\<close> expands to nothing, a \<open>pthread_mutex_trylock\<close> that fails
  with 22 makes \<open>TryLock\<close> and \<open>TryEnter\<close> return true: the process goes on, nothing was
  acquired and no owner is marked.
\<close>

theorem TryLock_TryEnter_release_error_returns_true:
  "rejecting_os (pthread_mutex_trylock (mutex unheld_mutex)) \<noteq> 0
   \<and> rejecting_os (pthread_mutex_trylock (mutex unheld_mutex)) \<noteq> EBUSY
   \<and> Mutex_TryLock False rejecting_os 77 unheld_mutex idle_process =
        Returned (True, unheld_mutex, idle_process\<lparr>calls := [pthread_mutex_trylock 64]\<rparr>)
   \<and> \<not> terminates_process (Mutex_TryLock False rejecting_os 77 unheld_mutex idle_process)
   \<and> Monitor_TryEnter False rejecting_os 77 unheld_monitor idle_process =
        Returned (True, unheld_monitor, idle_process\<lparr>calls := [pthread_mutex_trylock 64]\<rparr>)
   \<and> \<not> terminates_process (Monitor_TryEnter False rejecting_os 77 unheld_monitor idle_process)"
  by (simp add: Mutex_TryLock_def Monitor_TryEnter_def macro_defs rejecting_os_def
      unheld_mutex_def unheld_monitor_def idle_process_def EBUSY_def)

text \<open>
  C6, amended: \<open>Mutex::TryLock\<close> and \<open>Monitor::TryEnter\<close> make the one non-blocking call
  \<open>pthread_mutex_trylock\<close>, and in every build each returns false exactly when that call
  answers \<open>EBUSY\<close>, so no other answer is ever reported as false. In a DEBUG build each
  returns true after a successful call, with the caller marked as owner, and ends the
  process on any other answer. In a release build, where the check expands to nothing and
  no owner is tracked, each returns true for every answer other than \<open>EBUSY\<close>, with the
  object unchanged.
\<close>

theorem TryLock_TryEnter_false_iff_busy:
  "(os (pthread_mutex_trylock (mutex m)) = EBUSY \<longrightarrow>
      Mutex_TryLock debug os self m p =
        Returned (False, m, p\<lparr>calls := calls p @ [pthread_mutex_trylock (mutex m)]\<rparr>))
   \<and> (\<forall>m' p'. Mutex_TryLock debug os self m p = Returned (False, m', p') \<longrightarrow>
        os (pthread_mutex_trylock (mutex m)) = EBUSY)
   \<and> (os (pthread_mutex_trylock (mutex m)) = 0 \<and> (debug \<longrightarrow> owner m = kInvalidThreadId) \<longrightarrow>
      Mutex_TryLock debug os self m p =
        Returned (True, if debug then m\<lparr>owner := self\<rparr> else m,
                  p\<lparr>calls := calls p @ [pthread_mutex_trylock (mutex m)]\<rparr>))
   \<and> (debug \<and> os (pthread_mutex_trylock (mutex m)) \<noteq> 0
        \<and> os (pthread_mutex_trylock (mutex m)) \<noteq> EBUSY \<longrightarrow>
      Mutex_TryLock debug os self m p = Fatal (os (pthread_mutex_trylock (mutex m))))
   \<and> (os (pthread_mutex_trylock (mutex n)) = EBUSY \<longrightarrow>
      Monitor_TryEnter debug os self n p =
        Returned (False, n, p\<lparr>calls := calls p @ [pthread_mutex_trylock (mutex n)]\<rparr>))
   \<and> (\<forall>n' p'. Monitor_TryEnter debug os self n p = Returned (False, n', p') \<longrightarrow>
        os (pthread_mutex_trylock (mutex n)) = EBUSY)
   \<and> (os (pthread_mutex_trylock (mutex n)) = 0 \<and> (debug \<longrightarrow> owner n = kInvalidThreadId) \<longrightarrow>
      Monitor_TryEnter debug os self n p =
        Returned (True, if debug then n\<lparr>owner := self\<rparr> else n,
                  p\<lparr>calls := calls p @ [pthread_mutex_trylock (mutex n)]\<rparr>))
   \<and> (debug \<and> os (pthread_mutex_trylock (mutex n)) \<noteq> 0
        \<and> os (pthread_mutex_trylock (mutex n)) \<noteq> EBUSY \<longrightarrow>
      Monitor_TryEnter debug os self n p = Fatal (os (pthread_mutex_trylock (mutex n))))
   \<and> (os (pthread_mutex_trylock (mutex m)) \<noteq> EBUSY \<longrightarrow>
      Mutex_TryLock False os self m p =
        Returned (True, m, p\<lparr>calls := calls p @ [pthread_mutex_trylock (mutex m)]\<rparr>))
   \<and> (os (pthread_mutex_trylock (mutex n)) \<noteq> EBUSY \<longrightarrow>
      Monitor_TryEnter False os self n p =
        Returned (True, n, p\<lparr>calls := calls p @ [pthread_mutex_trylock (mutex n)]\<rparr>))"
  by (auto simp add: Mutex_TryLock_def Monitor_TryEnter_def macro_defs EBUSY_def
      split: if_splits)

text \<open>C6, amended, for thread 77 on an unheld mutex and an unheld monitor: in a DEBUG build a busy
  lock, a free lock, and a lock the operating system rejects with 22; in a release build
  the rejected lock.\<close>

theorem TryLock_TryEnter_false_iff_busy_witness:
  "Mutex_TryLock True (\<lambda>c. EBUSY) 77 unheld_mutex idle_process =
      Returned (False, unheld_mutex, idle_process\<lparr>calls := [pthread_mutex_trylock 64]\<rparr>)
   \<and> owner unheld_mutex = kInvalidThreadId
   \<and> Mutex_TryLock True (\<lambda>c. 0) 77 unheld_mutex idle_process =
      Returned (True, held_mutex, idle_process\<lparr>calls := [pthread_mutex_trylock 64]\<rparr>)
   \<and> (22::int) \<noteq> 0 \<and> 22 \<noteq> EBUSY
   \<and> Mutex_TryLock True (\<lambda>c. 22) 77 unheld_mutex idle_process = Fatal 22
   \<and> Monitor_TryEnter True (\<lambda>c. EBUSY) 77 unheld_monitor idle_process =
      Returned (False, unheld_monitor, idle_process\<lparr>calls := [pthread_mutex_trylock 64]\<rparr>)
   \<and> owner unheld_monitor = kInvalidThreadId
   \<and> Monitor_TryEnter True (\<lambda>c. 0) 77 unheld_monitor idle_process =
      Returned (True, held_monitor, idle_process\<lparr>calls := [pthread_mutex_trylock 64]\<rparr>)
   \<and> Monitor_TryEnter True (\<lambda>c. 22) 77 unheld_monitor idle_process = Fatal 22
   \<and> Mutex_TryLock False (\<lambda>c. 22) 77 unheld_mutex idle_process =
      Returned (True, unheld_mutex, idle_process\<lparr>calls := [pthread_mutex_trylock 64]\<rparr>)
   \<and> Monitor_TryEnter False (\<lambda>c. 22) 77 unheld_monitor idle_process =
      Returned (True, unheld_monitor, idle_process\<lparr>calls := [pthread_mutex_trylock 64]\<rparr>)"
  using TryLock_TryEnter_false_iff_busy
      [where debug = True and os = "\<lambda>c. EBUSY" and self = 77 and m = unheld_mutex
         and n = unheld_monitor and p = idle_process]
    TryLock_TryEnter_false_iff_busy
      [where debug = True and os = "\<lambda>c. 0" and self = 77 and m = unheld_mutex
         and n = unheld_monitor and p = idle_process]
    TryLock_TryEnter_false_iff_busy
      [where debug = True and os = "\<lambda>c. 22" and self = 77 and m = unheld_mutex
         and n = unheld_monitor and p = idle_process]
  by (simp add: unheld_mutex_def held_mutex_def unheld_monitor_def held_monitor_def
      idle_process_def EBUSY_def)

text \<open>
  C8: \<open>Notify\<close> and \<open>NotifyAll\<close> are to be called by the thread that holds the monitor; a
  DEBUG build asserts it on the owner mark. Called so, \<open>Notify\<close> signals the condition
  variable and \<open>NotifyAll\<close> broadcasts on it, and a failure of either call is fatal.
\<close>

theorem Monitor_Notify_checks_owner_and_signals:
  "(debug \<and> owner m \<noteq> self \<longrightarrow>
      Monitor_Notify debug os self m p = AssertionFailure
      \<and> Monitor_NotifyAll debug os self m p = AssertionFailure)
   \<and> ((debug \<longrightarrow> owner m = self) \<and> os (pthread_cond_signal (cond m)) = 0 \<longrightarrow>
      Monitor_Notify debug os self m p =
        Returned (p\<lparr>calls := calls p @ [pthread_cond_signal (cond m)]\<rparr>))
   \<and> ((debug \<longrightarrow> owner m = self) \<and> os (pthread_cond_broadcast (cond m)) = 0 \<longrightarrow>
      Monitor_NotifyAll debug os self m p =
        Returned (p\<lparr>calls := calls p @ [pthread_cond_broadcast (cond m)]\<rparr>))
   \<and> ((debug \<longrightarrow> owner m = self) \<and> os (pthread_cond_signal (cond m)) \<noteq> 0 \<longrightarrow>
      Monitor_Notify debug os self m p = Fatal (os (pthread_cond_signal (cond m))))
   \<and> ((debug \<longrightarrow> owner m = self) \<and> os (pthread_cond_broadcast (cond m)) \<noteq> 0 \<longrightarrow>
      Monitor_NotifyAll debug os self m p = Fatal (os (pthread_cond_broadcast (cond m))))"
  by (simp add: Monitor_Notify_def Monitor_NotifyAll_def macro_defs)

text \<open>C8 in a DEBUG build on the monitor held by thread 77: notified by thread 78, by
  thread 77, and by thread 77 on an operating system that rejects the calls with 22.\<close>

theorem Monitor_Notify_checks_owner_and_signals_witness:
  "owner held_monitor \<noteq> 78
   \<and> Monitor_Notify True (\<lambda>c. 0) 78 held_monitor idle_process = AssertionFailure
   \<and> Monitor_NotifyAll True (\<lambda>c. 0) 78 held_monitor idle_process = AssertionFailure
   \<and> owner held_monitor = 77
   \<and> Monitor_Notify True (\<lambda>c. 0) 77 held_monitor idle_process =
        Returned (idle_process\<lparr>calls := [pthread_cond_signal 128]\<rparr>)
   \<and> Monitor_NotifyAll True (\<lambda>c. 0) 77 held_monitor idle_process =
        Returned (idle_process\<lparr>calls := [pthread_cond_broadcast 128]\<rparr>)
   \<and> Monitor_Notify True (\<lambda>c. 22) 77 held_monitor idle_process = Fatal 22
   \<and> Monitor_NotifyAll True (\<lambda>c. 22) 77 held_monitor idle_process = Fatal 22"
  using Monitor_Notify_checks_owner_and_signals
      [where debug = True and os = "\<lambda>c. 0" and self = 78 and m = held_monitor
         and p = idle_process]
    Monitor_Notify_checks_owner_and_signals
      [where debug = True and os = "\<lambda>c. 0" and self = 77 and m = held_monitor
         and p = idle_process]
    Monitor_Notify_checks_owner_and_signals
      [where debug = True and os = "\<lambda>c. 22" and self = 77 and m = held_monitor
         and p = idle_process]
  by (simp add: held_monitor_def idle_process_def)

text \<open>
  C9: in a DEBUG build, \<open>Lock\<close> by the thread marked as the owner of the mutex ends the
  process whatever the operating system answers: the assertion on \<open>EDEADLK\<close> fails when the
  error-checking mutex reports it, and the assertion on the owner mark fails when the call
  succeeds. \<open>Unlock\<close> by a thread that is not marked as the owner fails the assertion on the
  owner mark, and an answer \<open>EPERM\<close> fails the assertion on it. The constructor of a
  DEBUG build makes the mutex an error-checking one. A release build makes none of these
  checks: both operations return.
\<close>

theorem Mutex_ownership_violations_fatal_in_debug:
  "(owner m = self \<and> self \<noteq> kInvalidThreadId \<longrightarrow>
      terminates_process (Mutex_Lock True os self m p))
   \<and> (os (pthread_mutex_lock (mutex m)) = EDEADLK \<longrightarrow>
      Mutex_Lock True os self m p = AssertionFailure)
   \<and> (owner m = self \<and> self \<noteq> kInvalidThreadId \<and> os (pthread_mutex_lock (mutex m)) = 0 \<longrightarrow>
      Mutex_Lock True os self m p = AssertionFailure)
   \<and> (owner m \<noteq> self \<longrightarrow> Mutex_Unlock True os self m p = AssertionFailure)
   \<and> (os (pthread_mutex_unlock (mutex m)) = EPERM \<longrightarrow>
      Mutex_Unlock True os self m p = AssertionFailure)
   \<and> Mutex_Lock False os self m p =
        Returned (m, p\<lparr>calls := calls p @ [pthread_mutex_lock (mutex m)]\<rparr>)
   \<and> Mutex_Unlock False os self m p =
        Returned (m, p\<lparr>calls := calls p @ [pthread_mutex_unlock (mutex m)]\<rparr>)
   \<and> Mutex_ctor True (\<lambda>c. 0) mtx p =
        Returned (\<lparr> mutex = mtx, owner = kInvalidThreadId \<rparr>,
          p\<lparr>calls := calls p @
            [pthread_mutexattr_init, pthread_mutexattr_settype_ERRORCHECK,
             pthread_mutex_init mtx, pthread_mutexattr_destroy]\<rparr>)"
  by (auto simp add: Mutex_Lock_def Mutex_Unlock_def Mutex_ctor_def macro_defs
      EDEADLK_def EPERM_def)

text \<open>C9 on the mutex held by thread 77: locked again by thread 77, with the operating
  system answering \<open>EDEADLK\<close> and answering success, and unlocked by thread 78, with the
  operating system answering \<open>EPERM\<close>.\<close>

theorem Mutex_ownership_violations_fatal_in_debug_witness:
  "owner held_mutex = 77 \<and> (77::ThreadId) \<noteq> kInvalidThreadId
   \<and> terminates_process (Mutex_Lock True (\<lambda>c. 11) 77 held_mutex idle_process)
   \<and> Mutex_Lock True (\<lambda>c. EDEADLK) 77 held_mutex idle_process = AssertionFailure
   \<and> Mutex_Lock True (\<lambda>c. 0) 77 held_mutex idle_process = AssertionFailure
   \<and> owner held_mutex \<noteq> 78
   \<and> Mutex_Unlock True (\<lambda>c. EPERM) 78 held_mutex idle_process = AssertionFailure
   \<and> Mutex_Unlock True (\<lambda>c. EPERM) 77 held_mutex idle_process = AssertionFailure"
  using Mutex_ownership_violations_fatal_in_debug
      [where os = "\<lambda>c. 11" and self = 77 and m = held_mutex and p = idle_process]
    Mutex_ownership_violations_fatal_in_debug
      [where os = "\<lambda>c. EDEADLK" and self = 77 and m = held_mutex and p = idle_process]
    Mutex_ownership_violations_fatal_in_debug
      [where os = "\<lambda>c. 0" and self = 77 and m = held_mutex and p = idle_process]
    Mutex_ownership_violations_fatal_in_debug
      [where os = "\<lambda>c. EPERM" and self = 78 and m = held_mutex and p = idle_process]
    Mutex_ownership_violations_fatal_in_debug
      [where os = "\<lambda>c. EPERM" and self = 77 and m = held_mutex and p = idle_process]
  by (simp add: held_mutex_def kInvalidThreadId_def)

end
